theory Spec2Isabelle
  imports Main "HOL-Library.Word"
begin

section \<open>pgsql.c: parsing a single-value result\<close>

text \<open>
  The four result shapes that \<^verbatim>\<open>parseSingleValueResult\<close> switches on, in the order of
  the \<^verbatim>\<open>case\<close> labels of the source.
\<close>

datatype QueryResultType =
  PGSQL_RESULT_BOOL | PGSQL_RESULT_INT | PGSQL_RESULT_BIGINT | PGSQL_RESULT_STRING

text \<open>
  \<^verbatim>\<open>SingleValueResultContext\<close>: the fields the callback writes. \<^verbatim>\<open>intVal\<close> is a C
  \<^verbatim>\<open>int\<close>, \<^verbatim>\<open>bigint\<close> a \<^verbatim>\<open>uint64_t\<close>, \<^verbatim>\<open>strVal\<close> a \<^verbatim>\<open>char *\<close>
  (\<open>None\<close> is the null pointer). A context declared without initialiser holds arbitrary
  values in the fields its caller did not set; the model takes them as they come.
\<close>

record SingleValueResultContext =
  resultType :: QueryResultType
  parsedOk :: bool
  boolVal :: bool
  intVal :: "32 word"
  bigint :: "64 word"
  strVal :: "string option"

text \<open>
  The status of a libpq result, and the result itself. The callbacks of this file read
  the first column only, so the rows are kept as the list of their first-column values:
  \<^verbatim>\<open>PQntuples\<close> is the length of that list and \<^verbatim>\<open>PQgetvalue(result, 0, 0)\<close> its head.
  \<^verbatim>\<open>errorSqlstate\<close> is what \<^verbatim>\<open>PQresultErrorField(result, PG_DIAG_SQLSTATE)\<close> returns,
  \<open>None\<close> for the null pointer.
\<close>

datatype ExecStatusType =
  PGRES_EMPTY_QUERY | PGRES_COMMAND_OK | PGRES_TUPLES_OK | PGRES_COPY_OUT | PGRES_COPY_IN
  | PGRES_BAD_RESPONSE | PGRES_NONFATAL_ERROR | PGRES_FATAL_ERROR | PGRES_COPY_BOTH
  | PGRES_SINGLE_TUPLE

record PGresult =
  resultStatus :: ExecStatusType
  firstColumn :: "string list"
  errorSqlstate :: "string option"

text \<open>
  The C library's conversions are not part of the program. They are parameters of the
  model: each takes the text and the value of \<^verbatim>\<open>errno\<close> before the call and returns the
  converted value, as the source stores it, with the value of \<^verbatim>\<open>errno\<close> after the call.
  The source never resets \<^verbatim>\<open>errno\<close> before converting.
\<close>

record libc =
  strtod_as_int :: "string \<Rightarrow> int \<Rightarrow> 32 word \<times> int"
  strtoull_10 :: "string \<Rightarrow> int \<Rightarrow> 64 word \<times> int"

text \<open>The bodies of the four \<^verbatim>\<open>case\<close> blocks, each up to its last statement.\<close>

definition case_BOOL :: "SingleValueResultContext \<Rightarrow> string \<Rightarrow> SingleValueResultContext" where
  "case_BOOL ctx v = ctx\<lparr>boolVal := (v = ''t''), parsedOk := True\<rparr>"

definition case_INT ::
  "libc \<Rightarrow> int \<Rightarrow> SingleValueResultContext \<Rightarrow> string \<Rightarrow> SingleValueResultContext" where
  "case_INT lc errno ctx v =
     (let (i, errno') = strtod_as_int lc v errno;
          ctx1 = ctx\<lparr>intVal := i\<rparr>;
          ctx2 = (if intVal ctx1 = 0 \<and> errno' \<noteq> 0 then ctx1\<lparr>parsedOk := False\<rparr> else ctx1)
      in ctx2\<lparr>parsedOk := True\<rparr>)"

definition case_STRING :: "SingleValueResultContext \<Rightarrow> string \<Rightarrow> SingleValueResultContext" where
  "case_STRING ctx v = ctx\<lparr>strVal := Some v, parsedOk := True\<rparr>"

text \<open>
  The block of \<^verbatim>\<open>PGSQL_RESULT_BIGINT\<close> has no \<^verbatim>\<open>break\<close>: after its last statement
  control continues with the statements of \<^verbatim>\<open>PGSQL_RESULT_STRING\<close>.
\<close>

definition case_BIGINT ::
  "libc \<Rightarrow> int \<Rightarrow> SingleValueResultContext \<Rightarrow> string \<Rightarrow> SingleValueResultContext" where
  "case_BIGINT lc errno ctx v =
     (let (b, errno') = strtoull_10 lc v errno;
          ctx1 = ctx\<lparr>bigint := b\<rparr>;
          ctx2 = (if bigint ctx1 = 0 \<and> errno' \<noteq> 0 then ctx1\<lparr>parsedOk := False\<rparr> else ctx1);
          ctx3 = ctx2\<lparr>parsedOk := True\<rparr>
      in case_STRING ctx3 v)"

definition parseSingleValueResult ::
  "libc \<Rightarrow> int \<Rightarrow> SingleValueResultContext \<Rightarrow> PGresult \<Rightarrow> SingleValueResultContext" where
  "parseSingleValueResult lc errno ctx r =
     (case firstColumn r of
        [v] \<Rightarrow>
          (case resultType ctx of
             PGSQL_RESULT_BOOL \<Rightarrow> case_BOOL ctx v
           | PGSQL_RESULT_INT \<Rightarrow> case_INT lc errno ctx v
           | PGSQL_RESULT_BIGINT \<Rightarrow> case_BIGINT lc errno ctx v
           | PGSQL_RESULT_STRING \<Rightarrow> case_STRING ctx v)
      | _ \<Rightarrow> ctx)"

text \<open>
  A C library for the concrete runs below: it converts nothing and reports a range
  error, the failure the error branches of the source test for.
\<close>

definition failing_libc :: libc where
  "failing_libc = \<lparr>strtod_as_int = (\<lambda>v e. (0, 34)), strtoull_10 = (\<lambda>v e. (0, 34))\<rparr>"

definition blank_context :: "QueryResultType \<Rightarrow> SingleValueResultContext" where
  "blank_context t =
     \<lparr>resultType = t, parsedOk = False, boolVal = False, intVal = 0, bigint = 0,
      strVal = None\<rparr>"

definition one_row :: "string \<Rightarrow> PGresult" where
  "one_row v = \<lparr>resultStatus = PGRES_TUPLES_OK, firstColumn = [v], errorSqlstate = None\<rparr>"

section \<open>pgsql.c: running a query\<close>

text \<open>
  The client \<^verbatim>\<open>PGSQL\<close>. A connection is a handle; \<open>None\<close> is the null pointer.
\<close>

datatype ConnectionType = PGSQL_CONN_LOCAL | PGSQL_CONN_MONITOR | PGSQL_CONN_COORDINATOR

type_synonym PGconn = nat

record PGSQL =
  connectionType :: ConnectionType
  connectionString :: string
  connection :: "PGconn option"

definition pgsql_finish :: "PGSQL \<Rightarrow> PGSQL" where
  "pgsql_finish pgsql =
     (if connection pgsql \<noteq> None then pgsql\<lparr>connection := None\<rparr> else pgsql)"

text \<open>
  \<^verbatim>\<open>PQexec\<close> and \<^verbatim>\<open>PQexecParams\<close> return a result or the null pointer (\<open>None\<close>). The
  library reads a null result as a fatal error without any error field.
\<close>

definition PQresultStatus :: "PGresult option \<Rightarrow> ExecStatusType" where
  "PQresultStatus res = (case res of None \<Rightarrow> PGRES_FATAL_ERROR | Some r \<Rightarrow> resultStatus r)"

definition PQresultErrorField_SQLSTATE :: "PGresult option \<Rightarrow> string option" where
  "PQresultErrorField_SQLSTATE res = (case res of None \<Rightarrow> None | Some r \<Rightarrow> errorSqlstate r)"

definition is_response_ok :: "PGresult option \<Rightarrow> bool" where
  "is_response_ok res =
     (let status = PQresultStatus res
      in status = PGRES_SINGLE_TUPLE \<or> status = PGRES_TUPLES_OK \<or>
         status = PGRES_COMMAND_OK)"

text \<open>
  \<^verbatim>\<open>pgsql_execute_with_params\<close>. What the world answers is an argument: \<open>conn\<close> is what
  \<^verbatim>\<open>pgsql_open_connection\<close> returned (the client \<open>pgsql\<close> is taken after that call) and
  \<open>res\<close> what \<^verbatim>\<open>PQexecParams\<close> returned. The function returns its boolean, the context
  after the callback, and the client. Log lines are not modelled.
\<close>

definition pgsql_execute_with_params ::
  "PGSQL \<Rightarrow> PGconn option \<Rightarrow> PGresult option \<Rightarrow> 'c \<Rightarrow> ('c \<Rightarrow> PGresult \<Rightarrow> 'c) option
     \<Rightarrow> bool \<times> 'c \<times> PGSQL" where
  "pgsql_execute_with_params pgsql conn res ctx parseFun =
     (case conn of
        None \<Rightarrow> (False, ctx, pgsql)
      | Some c \<Rightarrow>
          if \<not> is_response_ok res then (False, ctx, pgsql_finish pgsql)
          else
            (case (parseFun, res) of
               (Some f, Some r) \<Rightarrow> (True, f ctx r, pgsql)
             | _ \<Rightarrow> (True, ctx, pgsql)))"

text \<open>
  A C function either returns or reads through a null pointer. \<^verbatim>\<open>strcmp\<close> and
  \<^verbatim>\<open>strlcpy\<close> read their string arguments, so a null argument is the second outcome.
\<close>

datatype 'a outcome = Returns 'a | NullPointerDereference

definition strcmp_is_0 :: "string option \<Rightarrow> string \<Rightarrow> bool outcome" where
  "strcmp_is_0 a b = (case a of None \<Rightarrow> NullPointerDereference | Some s \<Rightarrow> Returns (s = b))"

text \<open>
  \<^verbatim>\<open>strlcpy(dst, src, size)\<close>: the destination afterwards. At most \<open>size - 1\<close>
  characters are copied; a size of 0 leaves the destination alone, and a negative
  \<^verbatim>\<open>int\<close> becomes a huge \<^verbatim>\<open>size_t\<close>, so everything is copied.
\<close>

definition strlcpy :: "string \<Rightarrow> string \<Rightarrow> int \<Rightarrow> string" where
  "strlcpy dst src n =
     (if n = 0 then dst else if n < 0 then src else take (nat n - 1) src)"

text \<open>
  \<^verbatim>\<open>pgsql_get_received_lsn_from_standby\<close>. \<open>ctx0\<close> is the context as the stack holds it
  before the two assignments. The boolean of \<^verbatim>\<open>pgsql_execute_with_params\<close> is dropped, as
  in the source. The result is the returned boolean, the caller's buffer and the client.
\<close>

definition pgsql_get_received_lsn_from_standby ::
  "libc \<Rightarrow> int \<Rightarrow> SingleValueResultContext \<Rightarrow> PGSQL \<Rightarrow> PGconn option \<Rightarrow> PGresult option
     \<Rightarrow> string \<Rightarrow> int \<Rightarrow> (bool \<times> string \<times> PGSQL) outcome" where
  "pgsql_get_received_lsn_from_standby lc errno ctx0 pgsql conn res receivedLSN maxLSNSize =
     (let ctx1 = ctx0\<lparr>resultType := PGSQL_RESULT_STRING, parsedOk := False\<rparr>;
          (executed, ctx2, pgsql') =
             pgsql_execute_with_params pgsql conn res ctx1
               (Some (parseSingleValueResult lc errno))
      in if \<not> parsedOk ctx2 then Returns (False, receivedLSN, pgsql')
         else
           (case strVal ctx2 of
              None \<Rightarrow> NullPointerDereference
            | Some v \<Rightarrow> Returns (True, strlcpy receivedLSN v maxLSNSize, pgsql')))"

text \<open>
  \<^verbatim>\<open>pgsql_has_replica\<close>, in the same way; \<open>hasReplica\<close> is the caller's variable.
\<close>

definition pgsql_has_replica ::
  "libc \<Rightarrow> int \<Rightarrow> SingleValueResultContext \<Rightarrow> PGSQL \<Rightarrow> PGconn option \<Rightarrow> PGresult option
     \<Rightarrow> bool \<Rightarrow> bool \<times> bool \<times> PGSQL" where
  "pgsql_has_replica lc errno ctx0 pgsql conn res hasReplica =
     (let ctx1 = ctx0\<lparr>resultType := PGSQL_RESULT_BOOL, parsedOk := False\<rparr>;
          (executed, ctx2, pgsql') =
             pgsql_execute_with_params pgsql conn res ctx1
               (Some (parseSingleValueResult lc errno))
      in if \<not> parsedOk ctx2 then (False, hasReplica, pgsql')
         else (True, boolVal ctx2, pgsql'))"

text \<open>
  For the concrete runs: a query answered without any row, a client of the monitor whose
  connection is open (handle 1), and the same client without connection, as
  \<^verbatim>\<open>pgsql_open_connection\<close> leaves it when it returns the null pointer.
\<close>

definition zero_rows :: PGresult where
  "zero_rows = \<lparr>resultStatus = PGRES_TUPLES_OK, firstColumn = [], errorSqlstate = None\<rparr>"

definition monitor_client :: PGSQL where
  "monitor_client =
     \<lparr>connectionType = PGSQL_CONN_MONITOR,
      connectionString = ''postgres://autoctl_node@localhost:6000/pg_auto_failover'',
      connection = Some 1\<rparr>"

definition disconnected_client :: PGSQL where
  "disconnected_client = monitor_client\<lparr>connection := None\<rparr>"

section \<open>pgsql.c: creating databases, extensions and users\<close>

text \<open>
  The answers of the client library to the three functions below: the escaping
  functions return a fresh string or the null pointer, \<^verbatim>\<open>PQexec\<close> answers each
  command with a result or the null pointer, and \<open>bufferBroken\<close> tells whether building
  the query of \<^verbatim>\<open>pgsql_create_user\<close> ran out of memory.
\<close>

record libpq =
  PQescapeIdentifier :: "string \<Rightarrow> string option"
  PQescapeLiteral :: "string \<Rightarrow> string option"
  PQexec :: "string \<Rightarrow> PGresult option"
  bufferBroken :: bool

definition ERRCODE_DUPLICATE_OBJECT :: string where
  "ERRCODE_DUPLICATE_OBJECT = ''42710''"

definition ERRCODE_DUPLICATE_DATABASE :: string where
  "ERRCODE_DUPLICATE_DATABASE = ''42P04''"

text \<open>
  \<^verbatim>\<open>snprintf(command, BUFSIZE, ...)\<close> keeps at most \<open>BUFSIZE - 1\<close> characters of the
  formatted text. \<^verbatim>\<open>BUFSIZE\<close> comes from a header that is not among the sources at hand and
  is a parameter.
\<close>

definition snprintf :: "nat \<Rightarrow> string \<Rightarrow> string" where
  "snprintf bufsize formatted = take (bufsize - 1) formatted"

text \<open>
  The block that all three functions run when the command failed: the SQLSTATE of the
  result goes to \<^verbatim>\<open>strcmp\<close> as it is. On the expected code the function goes on and
  returns true; on another code it closes the connection and returns false.
\<close>

definition after_failed_command :: "PGSQL \<Rightarrow> PGresult option \<Rightarrow> string \<Rightarrow> (bool \<times> PGSQL) outcome" where
  "after_failed_command pgsql result expected =
     (let sqlstate = PQresultErrorField_SQLSTATE result
      in case strcmp_is_0 sqlstate expected of
           NullPointerDereference \<Rightarrow> NullPointerDereference
         | Returns True \<Rightarrow> Returns (True, pgsql)
         | Returns False \<Rightarrow> Returns (False, pgsql_finish pgsql))"

definition pgsql_create_database ::
  "nat \<Rightarrow> libpq \<Rightarrow> PGSQL \<Rightarrow> PGconn option \<Rightarrow> string \<Rightarrow> string \<Rightarrow> (bool \<times> PGSQL) outcome" where
  "pgsql_create_database bufsize lp pgsql conn dbname owner =
     (case conn of
        None \<Rightarrow> Returns (False, pgsql)
      | Some c \<Rightarrow>
          (case PQescapeIdentifier lp dbname of
             None \<Rightarrow> Returns (False, pgsql_finish pgsql)
           | Some escapedDBName \<Rightarrow>
               (case PQescapeIdentifier lp owner of
                  None \<Rightarrow> Returns (False, pgsql_finish pgsql)
                | Some escapedOwner \<Rightarrow>
                    (let command = snprintf bufsize
                           (''CREATE DATABASE '' @ escapedDBName @ '' WITH OWNER '' @ escapedOwner);
                         result = PQexec lp command
                     in if \<not> is_response_ok result
                        then after_failed_command pgsql result ERRCODE_DUPLICATE_DATABASE
                        else Returns (True, pgsql)))))"

definition pgsql_create_extension ::
  "nat \<Rightarrow> libpq \<Rightarrow> PGSQL \<Rightarrow> PGconn option \<Rightarrow> string \<Rightarrow> (bool \<times> PGSQL) outcome" where
  "pgsql_create_extension bufsize lp pgsql conn name =
     (case conn of
        None \<Rightarrow> Returns (False, pgsql)
      | Some c \<Rightarrow>
          (case PQescapeIdentifier lp name of
             None \<Rightarrow> Returns (False, pgsql_finish pgsql)
           | Some escapedIdentifier \<Rightarrow>
               (let command = snprintf bufsize (''CREATE EXTENSION '' @ escapedIdentifier);
                    result = PQexec lp command
                in if \<not> is_response_ok result
                   then after_failed_command pgsql result ERRCODE_DUPLICATE_OBJECT
                   else Returns (True, pgsql))))"

text \<open>
  \<^verbatim>\<open>pgsql_create_user\<close>: the query grows in an expandable buffer; \<open>password\<close> is a
  \<^verbatim>\<open>char *\<close> that may be null.
\<close>

definition create_user_options :: "bool \<Rightarrow> bool \<Rightarrow> bool \<Rightarrow> string option \<Rightarrow> string" where
  "create_user_options login superuser replication password =
     (if login \<or> superuser \<or> replication \<or> password \<noteq> None then '' WITH'' else [])
     @ (if login then '' LOGIN'' else [])
     @ (if superuser then '' SUPERUSER'' else [])
     @ (if replication then '' REPLICATION'' else [])"

definition pgsql_create_user ::
  "libpq \<Rightarrow> PGSQL \<Rightarrow> PGconn option \<Rightarrow> string \<Rightarrow> string option \<Rightarrow> bool \<Rightarrow> bool \<Rightarrow> bool
     \<Rightarrow> (bool \<times> PGSQL) outcome" where
  "pgsql_create_user lp pgsql conn userName password login superuser replication =
     (case conn of
        None \<Rightarrow> Returns (False, pgsql)
      | Some c \<Rightarrow>
          (case PQescapeIdentifier lp userName of
             None \<Rightarrow> Returns (False, pgsql_finish pgsql)
           | Some escapedIdentifier \<Rightarrow>
               (let query1 = ''CREATE USER '' @ escapedIdentifier
                      @ create_user_options login superuser replication password;
                    query2 =
                      (case password of
                         None \<Rightarrow> Some query1
                       | Some pw \<Rightarrow>
                           (case PQescapeLiteral lp pw of
                              None \<Rightarrow> None
                            | Some escapedPassword \<Rightarrow>
                                Some (query1 @ '' PASSWORD '' @ escapedPassword)))
                in case query2 of
                     None \<Rightarrow> Returns (False, pgsql_finish pgsql)
                   | Some query \<Rightarrow>
                       if bufferBroken lp then Returns (False, pgsql_finish pgsql)
                       else
                         (let result = PQexec lp query
                          in if \<not> is_response_ok result
                             then after_failed_command pgsql result ERRCODE_DUPLICATE_OBJECT
                             else Returns (True, pgsql)))))"

text \<open>
  A client library for the concrete runs: escaping wraps the name in double quotes, and
  every command is answered by the given result.
\<close>

definition answering :: "PGresult option \<Rightarrow> libpq" where
  "answering res =
     \<lparr>PQescapeIdentifier = (\<lambda>s. Some (CHR 0x22 # s @ [CHR 0x22])),
      PQescapeLiteral = (\<lambda>s. Some (CHR 0x27 # s @ [CHR 0x27])),
      PQexec = (\<lambda>command. res),
      bufferBroken = False\<rparr>"

text \<open>
  A failure that the library reports itself, for example a lost connection, has a
  status and a message but no SQLSTATE.
\<close>

definition failure_without_sqlstate :: PGresult where
  "failure_without_sqlstate =
     \<lparr>resultStatus = PGRES_FATAL_ERROR, firstColumn = [], errorSqlstate = None\<rparr>"

section \<open>pgsql.c: the retry loop of the connection\<close>

datatype PGPing = PQPING_OK | PQPING_REJECT | PQPING_NO_RESPONSE | PQPING_NO_ATTEMPT

datatype ConnStatusType = CONNECTION_OK | CONNECTION_BAD

text \<open>
  What one turn of the loop observes, in the order it looks: the clock
  (\<^verbatim>\<open>time(NULL)\<close>, read into a \<^verbatim>\<open>uint64_t\<close>), the answer of \<^verbatim>\<open>PQping\<close>, the connection that
  \<^verbatim>\<open>PQconnectdb\<close> hands back after a good ping together with its status, and the two
  flags that the signal handlers set. The observations of the successive turns are a
  function of the turn's index.
\<close>

record turn =
  clock :: "64 word"
  ping :: PGPing
  connectdb :: "PGconn option"
  connectdb_status :: ConnStatusType
  asked_to_stop :: bool
  asked_to_stop_fast :: bool

text \<open>
  The local variables of \<^verbatim>\<open>pgsql_retry_open_connection\<close> that the loop changes;
  \<open>opened\<close> is its \<^verbatim>\<open>connection\<close>. The counter \<^verbatim>\<open>attempts\<close>, a C \<^verbatim>\<open>int\<close> that only
  the log lines read, is an unbounded integer here.
\<close>

record retry_locals =
  opened :: "PGconn option"
  attempts :: int
  retry :: bool
  connectionOk :: bool

text \<open>
  The \<^verbatim>\<open>switch\<close> over the answer of \<^verbatim>\<open>PQping\<close>, after \<^verbatim>\<open>++attempts\<close>.
\<close>

definition ping_switch :: "turn \<Rightarrow> retry_locals \<Rightarrow> retry_locals" where
  "ping_switch t l =
     (case ping t of
        PQPING_OK \<Rightarrow>
          l\<lparr>retry := False, opened := connectdb t,
            connectionOk := (if connectdb_status t = CONNECTION_OK then True else connectionOk l)\<rparr>
      | PQPING_REJECT \<Rightarrow> l\<lparr>retry := False\<rparr>
      | PQPING_NO_RESPONSE \<Rightarrow> l\<lparr>retry := True\<rparr>
      | PQPING_NO_ATTEMPT \<Rightarrow> l\<lparr>retry := False\<rparr>)"

text \<open>
  The loop \<^verbatim>\<open>while (retry)\<close>, from turn \<open>i\<close> on. The test of the clock is an unsigned
  64-bit subtraction and comparison, \<open>timeout\<close> being \<^verbatim>\<open>POSTGRES_PING_RETRY_TIMEOUT\<close> (from
  a header that is not among the sources at hand) as that comparison reads it. The
  \<^verbatim>\<open>sleep\<close> at the end of a turn changes no variable; its effect is in the clock of the
  next turn. The function is partial: \<open>None\<close> is a loop that never exits.
\<close>

partial_function (option) retry_loop ::
  "64 word \<Rightarrow> 64 word \<Rightarrow> (nat \<Rightarrow> turn) \<Rightarrow> nat \<Rightarrow> retry_locals \<Rightarrow> retry_locals option" where
  "retry_loop timeout startTime turns i l =
     (if \<not> retry l then Some l
      else if timeout \<le> clock (turns i) - startTime then Some l
      else
        retry_loop timeout startTime turns (Suc i)
          (let l1 = l\<lparr>attempts := attempts l + 1\<rparr>;
               l2 = ping_switch (turns i) l1
           in if asked_to_stop (turns i) \<or> asked_to_stop_fast (turns i)
              then l2\<lparr>retry := False\<rparr> else l2))"

text \<open>
  \<^verbatim>\<open>pgsql_retry_open_connection\<close>: \<open>startTime\<close> is the clock at entry. It returns the
  connection or the null pointer, with the client and the number of attempts (which the
  source only logs).
\<close>

definition pgsql_retry_open_connection ::
  "64 word \<Rightarrow> 64 word \<Rightarrow> (nat \<Rightarrow> turn) \<Rightarrow> PGSQL \<Rightarrow> (PGconn option \<times> PGSQL \<times> int) option" where
  "pgsql_retry_open_connection timeout startTime turns pgsql =
     (case retry_loop timeout startTime turns 0
             \<lparr>opened = None, attempts = 0, retry = True, connectionOk = False\<rparr> of
        None \<Rightarrow> None
      | Some l \<Rightarrow>
          if \<not> connectionOk l then Some (None, pgsql_finish pgsql, attempts l)
          else Some (opened l, pgsql, attempts l))"

text \<open>
  A turn on which the loop is left: the clock has reached the timeout, or the ping was
  answered otherwise than by silence, or one of the flags is set.
\<close>

definition leaves_loop :: "64 word \<Rightarrow> 64 word \<Rightarrow> turn \<Rightarrow> bool" where
  "leaves_loop timeout startTime t =
     (timeout \<le> clock t - startTime \<or> ping t = PQPING_OK \<or> ping t = PQPING_REJECT \<or>
      ping t = PQPING_NO_ATTEMPT \<or> asked_to_stop t \<or> asked_to_stop_fast t)"

text \<open>
  A server that never answers, seen by a clock that advances five seconds a turn from
  second 1000.
\<close>

definition silent_server :: "nat \<Rightarrow> turn" where
  "silent_server i =
     \<lparr>clock = 1000 + 5 * of_nat i, ping = PQPING_NO_RESPONSE, connectdb = None,
      connectdb_status = CONNECTION_BAD, asked_to_stop = False, asked_to_stop_fast = False\<rparr>"

section \<open>pgsql.c: fields of a connection string\<close>

definition single_quote :: char where
  "single_quote = CHR 0x27"

definition backslash :: char where
  "backslash = CHR 0x5C"

text \<open>
  The loop of \<^verbatim>\<open>escape_conninfo_value\<close>: \<open>destination\<close> is what has been written so far
  (\<^verbatim>\<open>escapedStringLength\<close> is its length) and the list holds the characters from
  \<^verbatim>\<open>charIndex\<close> on. A C string has no NUL inside, so a list of characters stands for it.
\<close>

fun escape_loop :: "string \<Rightarrow> string \<Rightarrow> string" where
  "escape_loop destination [] = destination"
| "escape_loop destination (currentChar # rest) =
     escape_loop
       ((if currentChar = single_quote \<or> currentChar = backslash
         then destination @ [backslash] else destination) @ [currentChar])
       rest"

text \<open>
  \<^verbatim>\<open>escape_conninfo_value\<close> returns the text written to the destination (without the
  closing NUL) and its length. The source leaves the size of the destination to its
  caller; the length is an \<^verbatim>\<open>int\<close>, which a text that fits such a buffer does not
  overflow.
\<close>

definition escape_conninfo_value :: "string \<Rightarrow> string \<times> int" where
  "escape_conninfo_value string =
     (let destination = escape_loop [single_quote] string @ [single_quote]
      in (destination, int (length destination)))"

definition make_conninfo_field_str :: "string \<Rightarrow> string \<Rightarrow> string \<times> int" where
  "make_conninfo_field_str key val =
     (let head = '' '' @ key @ ''='';
          (escaped, n) = escape_conninfo_value val
      in (head @ escaped, int (length head) + n))"

text \<open>
  Modelled from the spec: the build of scenario F, a connection string with the four
  fields host, port, dbname and user. The function that assembles it is not among the
  sources at hand; a caller of \<^verbatim>\<open>make_conninfo_field_str\<close> writes each field at the end
  of the one before, advancing by the length returned.
\<close>

definition conninfo_of :: "string \<Rightarrow> string \<Rightarrow> string \<Rightarrow> string \<Rightarrow> string" where
  "conninfo_of host port dbname user =
     fst (make_conninfo_field_str ''host'' host)
     @ fst (make_conninfo_field_str ''port'' port)
     @ fst (make_conninfo_field_str ''dbname'' dbname)
     @ fst (make_conninfo_field_str ''user'' user)"

text \<open>
  Modelled from the spec: the reader of the key=value form. The program hands its
  connection strings to the database client library, whose parser is no code of this
  repository. The spec fixes the format of a value: single-quoted, with a backslash
  before each single quote and each backslash inside. The reader below reads that
  format the way the client library documents it: fields are separated by blanks, a
  keyword ends at the equals sign, a value in single quotes ends at the first quote
  that no backslash precedes, a backslash makes the next character literal, and an
  unquoted value ends at the first blank. It fails on a keyword without equals sign and
  on a quoted value without closing quote. The fields come back in the order read.
\<close>

definition isspace :: "char \<Rightarrow> bool" where
  "isspace c = (let n = (of_char c :: nat) in n = 32 \<or> (9 \<le> n \<and> n \<le> 13))"

datatype reader =
  Blanks
  | Keyword string
  | Before_equals string
  | After_equals string
  | Unquoted string string
  | Unquoted_escape string string
  | Quoted string string
  | Quoted_escape string string

fun conninfo_read ::
  "reader \<Rightarrow> (string \<times> string) list \<Rightarrow> string \<Rightarrow> (string \<times> string) list option" where
  "conninfo_read st seen [] =
     (case st of
        Blanks \<Rightarrow> Some seen
      | Keyword k \<Rightarrow> None
      | Before_equals k \<Rightarrow> None
      | After_equals k \<Rightarrow> Some (seen @ [(k, [])])
      | Unquoted k v \<Rightarrow> Some (seen @ [(k, v)])
      | Unquoted_escape k v \<Rightarrow> Some (seen @ [(k, v)])
      | Quoted k v \<Rightarrow> None
      | Quoted_escape k v \<Rightarrow> None)"
| "conninfo_read st seen (c # cs) =
     (case st of
        Blanks \<Rightarrow>
          if isspace c then conninfo_read Blanks seen cs
          else if c = CHR ''='' then conninfo_read (After_equals []) seen cs
          else conninfo_read (Keyword [c]) seen cs
      | Keyword k \<Rightarrow>
          if c = CHR ''='' then conninfo_read (After_equals k) seen cs
          else if isspace c then conninfo_read (Before_equals k) seen cs
          else conninfo_read (Keyword (k @ [c])) seen cs
      | Before_equals k \<Rightarrow>
          if isspace c then conninfo_read (Before_equals k) seen cs
          else if c = CHR ''='' then conninfo_read (After_equals k) seen cs
          else None
      | After_equals k \<Rightarrow>
          if isspace c then conninfo_read (After_equals k) seen cs
          else if c = single_quote then conninfo_read (Quoted k []) seen cs
          else if c = backslash then conninfo_read (Unquoted_escape k []) seen cs
          else conninfo_read (Unquoted k [c]) seen cs
      | Unquoted k v \<Rightarrow>
          if isspace c then conninfo_read Blanks (seen @ [(k, v)]) cs
          else if c = backslash then conninfo_read (Unquoted_escape k v) seen cs
          else conninfo_read (Unquoted k (v @ [c])) seen cs
      | Unquoted_escape k v \<Rightarrow> conninfo_read (Unquoted k (v @ [c])) seen cs
      | Quoted k v \<Rightarrow>
          if c = backslash then conninfo_read (Quoted_escape k v) seen cs
          else if c = single_quote then conninfo_read Blanks (seen @ [(k, v)]) cs
          else conninfo_read (Quoted k (v @ [c])) seen cs
      | Quoted_escape k v \<Rightarrow> conninfo_read (Quoted k (v @ [c])) seen cs)"

definition conninfo_parse :: "string \<Rightarrow> (string \<times> string) list option" where
  "conninfo_parse s = conninfo_read Blanks [] s"

section \<open>The monitor: catalog and operations\<close>

text \<open>
  Modelled from the spec: the monitor's catalog and its stored functions
  \<^verbatim>\<open>register_node\<close>, \<^verbatim>\<open>node_active\<close>, \<^verbatim>\<open>get_primary\<close> and \<^verbatim>\<open>remove_node\<close>. Their
  code is missing from the sources at hand, which hold only the expected output of the
  monitor's regression script (\<^verbatim>\<open>monitor.out\<close>). The definitions follow sections 3, 4.1,
  4.3 and 6 of the spec; where the spec leaves a value open (column defaults, the
  formation present at the start) they take what \<^verbatim>\<open>monitor.out\<close> prints, and say so.
\<close>

text \<open>Modelled from the spec: the states of a node (section 4.1), in the spec's order.\<close>

datatype replication_state =
  Init | Single | Wait_primary | Primary | Join_primary | Apply_settings | Wait_standby
  | Catchingup | Secondary | Prepare_promotion | Stop_replication | Wait_maintenance
  | Maintenance | Draining | Demote_timeout | Demoted | Demote | Report_lsn | Join_secondary
  | Fast_forward | Dropped

text \<open>Modelled from the spec: the writable states (section 4.1 and the glossary).\<close>

fun writable :: "replication_state \<Rightarrow> bool" where
  "writable Single = True"
| "writable Wait_primary = True"
| "writable Primary = True"
| "writable Join_primary = True"
| "writable Apply_settings = True"
| "writable _ = False"

text \<open>
  Modelled from the spec: the kinds of a formation, the replication states that a node
  reports and the health of a node (section 3). \<^verbatim>\<open>monitor.out\<close> prints the plain kind as
  \<^verbatim>\<open>pgsql\<close>.
\<close>

datatype formation_kind = Plain | Sharded

datatype sync_state = Async | Sync | Quorum | Unknown

datatype node_health = Health_unknown | Good | Bad

text \<open>
  Modelled from the spec: formations and nodes (section 3). The fields of a node that
  \<^verbatim>\<open>monitor.out\<close> prints carry its column names; the health, the time of the last
  health check and the time of the last report carry the spec's names, and times are
  seconds. The system identifier and the time of the last state change are left out, as
  are the event log and the notifications: none of the four operations below reads
  them.
\<close>

record formation =
  formation_id :: string
  kind :: formation_kind
  dbname :: string
  opt_secondary :: bool
  number_sync_standbys :: int

record node =
  formationid :: string
  nodeid :: int
  groupid :: int
  nodename :: string
  nodehost :: string
  nodeport :: int
  goalstate :: replication_state
  reportedstate :: replication_state
  reportedpgisrunning :: bool
  reportedrepstate :: sync_state
  reportedlsn :: nat
  candidatepriority :: int
  replicationquorum :: bool
  health :: node_health
  health_checked_at :: int
  reported_at :: int

text \<open>
  Modelled from the spec: the catalog. \<open>nodeid_seq\<close> is the last node id handed out
  (node ids are monitor-assigned and monotonic).
\<close>

record catalog =
  formations :: "formation list"
  nodes :: "node list"
  nodeid_seq :: int

text \<open>
  Modelled from the spec: the logical errors that a stored function returns to its
  caller by name (section 7), and the one message the spec spells out.
\<close>

datatype monitor_error = No_writable_node | Unknown_formation | Unknown_node

fun error_message :: "monitor_error \<Rightarrow> string" where
  "error_message No_writable_node = ''group has no writable node right now''"
| "error_message Unknown_formation = ''unknown formation''"
| "error_message Unknown_node = ''unknown node''"

text \<open>The row that \<^verbatim>\<open>node_active\<close> returns, and the longer one of \<^verbatim>\<open>register_node\<close>.\<close>

record assignment =
  assigned_node_id :: int
  assigned_group_id :: int
  assigned_group_state :: replication_state
  assigned_candidate_priority :: int
  assigned_replication_quorum :: bool

record registration = assignment +
  assigned_node_name :: string

definition in_group :: "string \<Rightarrow> int \<Rightarrow> node \<Rightarrow> bool" where
  "in_group f g n = (formationid n = f \<and> groupid n = g)"

text \<open>The decimal digits of a number, for the default node name \<^verbatim>\<open>node_<id>\<close>.\<close>

fun decimal :: "nat \<Rightarrow> string" where
  "decimal n =
     (if n < 10 then [''0123456789'' ! n]
      else decimal (n div 10) @ [''0123456789'' ! (n mod 10)])"

text \<open>
  Modelled from the spec: \<^verbatim>\<open>register_node\<close> (sections 4.1, rules 1 and 2, and 4.3), at
  the time \<open>now\<close> (the spec injects time). It takes the next node id, names the node
  \<^verbatim>\<open>node_<id>\<close>, and places it at \<^verbatim>\<open>single\<close> when its group has no node yet and at
  \<^verbatim>\<open>wait_standby\<close> otherwise. A formation has one group, group 0. Priority and quorum
  are optional and default to 100 and true; a new row has reported state \<^verbatim>\<open>init\<close>, a
  running database and replication state \<^verbatim>\<open>async\<close>, as \<^verbatim>\<open>monitor.out\<close> prints for a node
  that has not reported yet; its health is unknown and its two times are the time of
  the registration. The spec gives no use of the database name argument.
\<close>

definition register_node ::
  "int \<Rightarrow> catalog \<Rightarrow> string \<Rightarrow> string \<Rightarrow> int \<Rightarrow> string \<Rightarrow> int option \<Rightarrow> bool option
     \<Rightarrow> monitor_error + registration \<times> catalog" where
  "register_node now s f host port db priority quorum =
     (case find (\<lambda>fo. formation_id fo = f) (formations s) of
        None \<Rightarrow> Inl Unknown_formation
      | Some fo \<Rightarrow>
          (let nid = nodeid_seq s + 1;
               goal = (if filter (in_group f 0) (nodes s) = [] then Single else Wait_standby);
               n = \<lparr>formationid = f, nodeid = nid, groupid = 0,
                    nodename = ''node_'' @ decimal (nat nid), nodehost = host, nodeport = port,
                    goalstate = goal, reportedstate = Init, reportedpgisrunning = True,
                    reportedrepstate = Async, reportedlsn = 0,
                    candidatepriority = (case priority of None \<Rightarrow> 100 | Some p \<Rightarrow> p),
                    replicationquorum = (case quorum of None \<Rightarrow> True | Some q \<Rightarrow> q),
                    health = Health_unknown, health_checked_at = now, reported_at = now\<rparr>
           in Inr (\<lparr>assigned_node_id = nid, assigned_group_id = 0,
                     assigned_group_state = goal,
                     assigned_candidate_priority = candidatepriority n,
                     assigned_replication_quorum = replicationquorum n,
                     assigned_node_name = nodename n\<rparr>,
                   s\<lparr>nodes := nodes s @ [n], nodeid_seq := nid\<rparr>)))"

text \<open>
  Modelled from the spec: the assignment rules 1 to 3 of section 4.1, for the calling
  node \<open>n\<close> (with its fresh report) and its peers. Rule 1: alone in its group, the node
  is \<^verbatim>\<open>single\<close>. Rule 2: a node reporting \<^verbatim>\<open>single\<close> becomes \<^verbatim>\<open>wait_primary\<close>, but only
  after a new node has reported \<^verbatim>\<open>wait_standby\<close>. Rule 3: a node reporting
  \<^verbatim>\<open>wait_standby\<close> becomes \<^verbatim>\<open>catchingup\<close> if the primary has reported
  \<^verbatim>\<open>wait_primary\<close>. Otherwise the goal stays. The later rules (catch-up by LSN,
  synchronous standbys, failure detection, election, maintenance) are not modelled.
\<close>

definition assign_goal :: "node \<Rightarrow> node list \<Rightarrow> replication_state" where
  "assign_goal n peers =
     (if peers = [] then Single
      else if reportedstate n = Single \<and> (\<exists>p \<in> set peers. reportedstate p = Wait_standby)
        then Wait_primary
      else if reportedstate n = Wait_standby \<and> (\<exists>p \<in> set peers. reportedstate p = Wait_primary)
        then Catchingup
      else goalstate n)"

text \<open>
  Modelled from the spec: \<^verbatim>\<open>node_active\<close> (section 4.3): find the node, store what it
  reports and the time of the report, evaluate the rules, store the goal, return the
  assignment.
\<close>

definition node_active ::
  "int \<Rightarrow> catalog \<Rightarrow> string \<Rightarrow> int \<Rightarrow> int \<Rightarrow> replication_state \<Rightarrow> nat \<Rightarrow> bool \<Rightarrow> sync_state
     \<Rightarrow> monitor_error + assignment \<times> catalog" where
  "node_active now s f nid g reported lsn running rep =
     (case find (\<lambda>n. nodeid n = nid \<and> in_group f g n) (nodes s) of
        None \<Rightarrow> Inl Unknown_node
      | Some n0 \<Rightarrow>
          (let n1 = n0\<lparr>reportedstate := reported, reportedlsn := lsn,
                       reportedpgisrunning := running, reportedrepstate := rep,
                       reported_at := now\<rparr>;
               peers = filter (\<lambda>m. in_group f g m \<and> nodeid m \<noteq> nid) (nodes s);
               n2 = n1\<lparr>goalstate := assign_goal n1 peers\<rparr>
           in Inr (\<lparr>assigned_node_id = nid, assigned_group_id = g,
                     assigned_group_state = goalstate n2,
                     assigned_candidate_priority = candidatepriority n2,
                     assigned_replication_quorum = replicationquorum n2\<rparr>,
                   s\<lparr>nodes := map (\<lambda>m. if nodeid m = nid then n2 else m) (nodes s)\<rparr>)))"

text \<open>
  Modelled from the spec: \<^verbatim>\<open>get_primary\<close> (section 6). Both arguments are optional; the
  formation defaults to \<^verbatim>\<open>default\<close> and the group to 0. It looks for a node of that
  group whose goal state is writable (the invariant of section 3 counts writable nodes
  by goal state) and returns its id, name, host and port, or the named error.
\<close>

definition formation_or_default :: "string option \<Rightarrow> string" where
  "formation_or_default formation_arg =
     (case formation_arg of None \<Rightarrow> ''default'' | Some x \<Rightarrow> x)"

definition group_or_default :: "int option \<Rightarrow> int" where
  "group_or_default group_arg = (case group_arg of None \<Rightarrow> 0 | Some x \<Rightarrow> x)"

definition get_primary ::
  "catalog \<Rightarrow> string option \<Rightarrow> int option
     \<Rightarrow> monitor_error + int \<times> string \<times> string \<times> int" where
  "get_primary s formation_arg group_arg =
     (let f = formation_or_default formation_arg;
          g = group_or_default group_arg
      in case find (\<lambda>n. in_group f g n \<and> writable (goalstate n)) (nodes s) of
           None \<Rightarrow> Inl No_writable_node
         | Some n \<Rightarrow> Inr (nodeid n, nodename n, nodehost n, nodeport n))"

text \<open>
  Modelled from the spec: when a node is lost (section 4.1, rule 5, as the derived
  predicate of section 9): more than \<^verbatim>\<open>network_partition_timeout\<close> has passed since the
  later of its last report and its last health check, and the health probe has failed.
  A peer is reachable when it is not lost.
\<close>

definition is_lost :: "int \<Rightarrow> int \<Rightarrow> node \<Rightarrow> bool" where
  "is_lost network_partition_timeout now n =
     (now - max (reported_at n) (health_checked_at n) > network_partition_timeout
      \<and> health n = Bad)"

text \<open>
  Modelled from the spec: \<^verbatim>\<open>remove_node\<close> (section 4.1, rule 8 with rule 6), at the
  time \<open>now\<close>. When the node is the primary of its group (its goal state is writable),
  every reachable peer, that is every other node of the group that is not lost, is
  assigned \<^verbatim>\<open>report_lsn\<close>; the spec assigns nothing to a lost peer, and the model leaves
  its goal as it is. The node itself is marked \<^verbatim>\<open>dropped\<close>, or its row is deleted when
  the removal is forced. The function returns true. The spec does not say what happens
  for an unknown node id; the model returns false and changes nothing.

  \<^verbatim>\<open>monitor.out\<close> shows that the call also writes the row of the node's formation: its
  \<^verbatim>\<open>number_sync_standbys\<close> is 1 before \<^verbatim>\<open>remove_node(1)\<close> and 0 after, the other columns
  unchanged. The spec has no rule for the number written. The write is in the model;
  the number is a parameter, \<open>sync_standbys\<close>, a function of the formation's row and of
  the nodes left in the group.
\<close>

definition remove_node ::
  "int \<Rightarrow> int \<Rightarrow> (formation \<Rightarrow> node list \<Rightarrow> int) \<Rightarrow> catalog \<Rightarrow> int \<Rightarrow> bool \<Rightarrow> bool \<times> catalog" where
  "remove_node network_partition_timeout now sync_standbys s nid force =
     (case find (\<lambda>n. nodeid n = nid) (nodes s) of
        None \<Rightarrow> (False, s)
      | Some n \<Rightarrow>
          (let is_primary = writable (goalstate n);
               peer = (\<lambda>m. in_group (formationid n) (groupid n) m \<and> nodeid m \<noteq> nid);
               failover =
                 map (\<lambda>m. if is_primary \<and> peer m \<and> \<not> is_lost network_partition_timeout now m
                          then m\<lparr>goalstate := Report_lsn\<rparr> else m)
                   (nodes s);
               removed =
                 (if force then filter (\<lambda>m. nodeid m \<noteq> nid) failover
                  else map (\<lambda>m. if nodeid m = nid then m\<lparr>goalstate := Dropped\<rparr> else m) failover);
               rows =
                 map (\<lambda>fo. if formation_id fo = formationid n
                           then fo\<lparr>number_sync_standbys := sync_standbys fo (filter peer removed)\<rparr>
                           else fo)
                   (formations s)
           in (True, s\<lparr>formations := rows, nodes := removed\<rparr>)))"

text \<open>
  An instance of the parameter that agrees with \<^verbatim>\<open>monitor.out\<close>: a formation asks for
  no more synchronous standbys than its group has nodes beyond two. With the two nodes
  that \<^verbatim>\<open>remove_node(1)\<close> leaves, 1 becomes 0.
\<close>

definition standbys_the_group_can_give :: "formation \<Rightarrow> node list \<Rightarrow> int" where
  "standbys_the_group_can_give fo left =
     min (number_sync_standbys fo) (max 0 (int (length left) - 2))"

text \<open>
  The regression script as data: a call of \<^verbatim>\<open>register_node\<close> or \<^verbatim>\<open>node_active\<close>, the
  reply it gets, and the run of a list of calls from a catalog. A call that ends in an
  error leaves the catalog as it was. The script runs within a second: all calls of a
  run see the same time.
\<close>

datatype call =
  Register_node string string int string
  | Node_active string int int replication_state

datatype reply =
  Registered registration
  | Assigned assignment
  | Error string

text \<open>
  The script leaves the optional arguments of \<^verbatim>\<open>register_node\<close> and \<^verbatim>\<open>node_active\<close>
  out; \<^verbatim>\<open>monitor.out\<close> shows their defaults in the rows of nodes that reported: LSN 0/0,
  a running database, replication state \<^verbatim>\<open>unknown\<close>.
\<close>

fun perform :: "int \<Rightarrow> catalog \<Rightarrow> call \<Rightarrow> reply \<times> catalog" where
  "perform now s (Register_node f host port db) =
     (case register_node now s f host port db None None of
        Inl e \<Rightarrow> (Error (error_message e), s) | Inr (r, s') \<Rightarrow> (Registered r, s'))"
| "perform now s (Node_active f nid g reported) =
     (case node_active now s f nid g reported 0 True Unknown of
        Inl e \<Rightarrow> (Error (error_message e), s) | Inr (a, s') \<Rightarrow> (Assigned a, s'))"

fun run :: "int \<Rightarrow> catalog \<Rightarrow> call list \<Rightarrow> reply list \<times> catalog" where
  "run now s [] = ([], s)"
| "run now s (c # cs) =
     (case perform now s c of (r, s') \<Rightarrow> (case run now s' cs of (rs, s'') \<Rightarrow> (r # rs, s'')))"

text \<open>
  The catalog at the start of the script: no node, and the formation \<^verbatim>\<open>default\<close> that
  the monitor ships with, its row as \<^verbatim>\<open>monitor.out\<close> prints it before any removal (lines
  117 to 124). Nothing in the spec changes that row at a registration.
\<close>

definition initial_catalog :: catalog where
  "initial_catalog =
     \<lparr>formations = [\<lparr>formation_id = ''default'', kind = Plain, dbname = ''postgres'',
                      opt_secondary = True, number_sync_standbys = 1\<rparr>],
      nodes = [], nodeid_seq = 0\<rparr>"


text \<open>
  Lines 4 to 86 of \<^verbatim>\<open>monitor.out\<close>, without the call that sets the system identifier
  (which the model does not keep): the calls of scenario A and, between them, node 2
  reporting \<^verbatim>\<open>wait_standby\<close> before the primary calls again, and the primary
  reporting \<^verbatim>\<open>wait_primary\<close> before node 2 calls again.
\<close>

definition scenario_A :: "call list" where
  "scenario_A =
     [Register_node ''default'' ''localhost'' 9876 ''postgres'',
      Node_active ''default'' 1 0 Single,
      Register_node ''default'' ''localhost'' 9877 ''postgres'',
      Node_active ''default'' 2 0 Wait_standby,
      Node_active ''default'' 1 0 Single,
      Node_active ''default'' 1 0 Wait_primary,
      Node_active ''default'' 2 0 Wait_standby]"



text \<open>
  The catalog that lines 4 to 98 of \<^verbatim>\<open>monitor.out\<close> lead to: after the calls above a
  third node registers. It is the catalog on which the script then asks for the primary
  and removes it. The run is at second 0.
\<close>

definition three_nodes :: catalog where
  "three_nodes =
     snd (run 0 initial_catalog
            (scenario_A @ [Register_node ''default'' ''localhost'' 9879 ''postgres'']))"

text \<open>
  A row of the node table as \<^verbatim>\<open>monitor.out\<close> dumps it, with the defaults filled in; the
  node has never been probed and its times are second 0.
\<close>

definition node_row ::
  "int \<Rightarrow> string \<Rightarrow> int \<Rightarrow> replication_state \<Rightarrow> replication_state \<Rightarrow> sync_state \<Rightarrow> node" where
  "node_row nid name port goal reported rep =
     \<lparr>formationid = ''default'', nodeid = nid, groupid = 0, nodename = name,
      nodehost = ''localhost'', nodeport = port, goalstate = goal, reportedstate = reported,
      reportedpgisrunning = True, reportedrepstate = rep, reportedlsn = 0,
      candidatepriority = 100, replicationquorum = True,
      health = Health_unknown, health_checked_at = 0, reported_at = 0\<rparr>"

text \<open>
  A group in which a standby is lost: node 1 is the primary, node 2 a standby that has
  been silent since second 0 and whose health probe has failed, node 3 a standby that
  reported at second 95. The primary is removed at second 100, with a
  \<^verbatim>\<open>network_partition_timeout\<close> of 20 seconds.
\<close>

definition lost_standby :: catalog where
  "lost_standby =
     initial_catalog
       \<lparr>nodes := [node_row 1 ''node_1'' 9876 Primary Primary Unknown,
                  (node_row 2 ''node_2'' 9877 Secondary Secondary Sync)\<lparr>health := Bad\<rparr>,
                  (node_row 3 ''node_3'' 9879 Secondary Secondary Sync)
                     \<lparr>health := Good, health_checked_at := 95, reported_at := 95\<rparr>],
        nodeid_seq := 3\<rparr>"

section \<open>Properties of pgsql.c\<close>

subsection \<open>The fall-through of the bigint case\<close>

text \<open>
  Claim C6. On a result of exactly one row and a context of type
  \<^verbatim>\<open>PGSQL_RESULT_BIGINT\<close>, the function stores the converted number and then runs the
  statements of the string case on that context: it returns what \<open>case_STRING\<close> returns
  on the context holding the number, so \<^verbatim>\<open>strVal\<close> is a copy of the raw text and
  \<^verbatim>\<open>parsedOk\<close> is set as the string case sets it.
\<close>

theorem bigint_falls_through_to_string:
  assumes "firstColumn r = [v]" and "resultType ctx = PGSQL_RESULT_BIGINT"
  shows "parseSingleValueResult lc errno ctx r =
           case_STRING (ctx\<lparr>bigint := fst (strtoull_10 lc v errno), parsedOk := True\<rparr>) v
         \<and> bigint (parseSingleValueResult lc errno ctx r) = fst (strtoull_10 lc v errno)
         \<and> strVal (parseSingleValueResult lc errno ctx r) = Some v
         \<and> parsedOk (parseSingleValueResult lc errno ctx r)
             = parsedOk (case_STRING ctx v)"
  using assms
  by (auto simp: parseSingleValueResult_def case_BIGINT_def case_STRING_def Let_def
      split: prod.splits)

theorem bigint_falls_through_to_string_witness:
  "parseSingleValueResult failing_libc 0 (blank_context PGSQL_RESULT_BIGINT) (one_row ''42'')
     = \<lparr>resultType = PGSQL_RESULT_BIGINT, parsedOk = True, boolVal = False, intVal = 0,
        bigint = 0, strVal = Some ''42''\<rparr>"
  using bigint_falls_through_to_string
    [of "one_row ''42''" "''42''" "blank_context PGSQL_RESULT_BIGINT" failing_libc 0]
  by (simp add: one_row_def blank_context_def failing_libc_def case_STRING_def)

subsection \<open>Numeric conversion failures are not reported\<close>

text \<open>
  Claim C9. On a result of exactly one row and a context of type \<^verbatim>\<open>PGSQL_RESULT_INT\<close>
  or \<^verbatim>\<open>PGSQL_RESULT_BIGINT\<close>, \<^verbatim>\<open>parsedOk\<close> is true on return whatever the conversion
  returned, also when it returned 0 and left \<^verbatim>\<open>errno\<close> set: the assignment of false in
  the error branch is followed by an unconditional assignment of true.
\<close>

theorem numeric_parse_failure_not_reported:
  assumes "firstColumn r = [v]"
    and "resultType ctx = PGSQL_RESULT_INT \<or> resultType ctx = PGSQL_RESULT_BIGINT"
  shows "parsedOk (parseSingleValueResult lc errno ctx r)"
  using assms
  by (auto simp: parseSingleValueResult_def case_INT_def case_BIGINT_def case_STRING_def
      Let_def split: prod.splits)

theorem numeric_parse_failure_not_reported_witness:
  "strtod_as_int failing_libc ''abc'' 0 = (0, 34)
   \<and> parsedOk (parseSingleValueResult failing_libc 0 (blank_context PGSQL_RESULT_INT)
        (one_row ''abc''))
   \<and> strtoull_10 failing_libc ''abc'' 0 = (0, 34)
   \<and> parsedOk (parseSingleValueResult failing_libc 0 (blank_context PGSQL_RESULT_BIGINT)
        (one_row ''abc''))"
  using numeric_parse_failure_not_reported
    [of "one_row ''abc''" "''abc''" "blank_context PGSQL_RESULT_INT" failing_libc 0]
    numeric_parse_failure_not_reported
    [of "one_row ''abc''" "''abc''" "blank_context PGSQL_RESULT_BIGINT" failing_libc 0]
  by (simp add: one_row_def blank_context_def failing_libc_def)

subsection \<open>Transport failures and empty results\<close>

lemma execute_failed:
  "cn = None \<or> \<not> is_response_ok res \<Longrightarrow>
   fst (pgsql_execute_with_params pgsql cn res ctx f) = False
   \<and> fst (snd (pgsql_execute_with_params pgsql cn res ctx f)) = ctx"
  by (auto simp: pgsql_execute_with_params_def split: option.splits)

lemma parse_not_one_row:
  "length (firstColumn r) \<noteq> 1 \<Longrightarrow> parseSingleValueResult lc errno ctx r = ctx"
  by (cases "firstColumn r"; simp add: parseSingleValueResult_def split: list.splits)

lemma execute_not_one_row:
  "is_response_ok (Some r) \<Longrightarrow> length (firstColumn r) \<noteq> 1 \<Longrightarrow>
   pgsql_execute_with_params pgsql (Some c) (Some r) ctx (Some (parseSingleValueResult lc errno))
     = (True, ctx, pgsql)"
  by (simp add: pgsql_execute_with_params_def parse_not_one_row)

text \<open>
  What the two functions return is the \<^verbatim>\<open>parsedOk\<close> of the context after the query; the
  boolean of \<^verbatim>\<open>pgsql_execute_with_params\<close> has no part in it.
\<close>

lemma parsed_string_has_text:
  "parsedOk (fst (snd (pgsql_execute_with_params pgsql cn res
        (ctx0\<lparr>resultType := PGSQL_RESULT_STRING, parsedOk := False\<rparr>)
        (Some (parseSingleValueResult lc errno)))))
   \<Longrightarrow> strVal (fst (snd (pgsql_execute_with_params pgsql cn res
        (ctx0\<lparr>resultType := PGSQL_RESULT_STRING, parsedOk := False\<rparr>)
        (Some (parseSingleValueResult lc errno))))) \<noteq> None"
  by (auto simp: pgsql_execute_with_params_def parseSingleValueResult_def case_STRING_def
      split: option.splits if_splits list.splits)

lemma received_lsn_result_is_parsedOk:
  "\<exists>out p. pgsql_get_received_lsn_from_standby lc errno ctx0 pgsql cn res receivedLSN maxLSNSize
      = Returns (parsedOk (fst (snd (pgsql_execute_with_params pgsql cn res
            (ctx0\<lparr>resultType := PGSQL_RESULT_STRING, parsedOk := False\<rparr>)
            (Some (parseSingleValueResult lc errno))))), out, p)"
  using parsed_string_has_text[of pgsql cn res ctx0 lc errno]
  by (cases "pgsql_execute_with_params pgsql cn res
            (ctx0\<lparr>resultType := PGSQL_RESULT_STRING, parsedOk := False\<rparr>)
            (Some (parseSingleValueResult lc errno))")
     (auto simp: pgsql_get_received_lsn_from_standby_def)

lemma has_replica_result_is_parsedOk:
  "fst (pgsql_has_replica lc errno ctx0 pgsql cn res hasReplica)
     = parsedOk (fst (snd (pgsql_execute_with_params pgsql cn res
            (ctx0\<lparr>resultType := PGSQL_RESULT_BOOL, parsedOk := False\<rparr>)
            (Some (parseSingleValueResult lc errno)))))"
  by (cases "pgsql_execute_with_params pgsql cn res
            (ctx0\<lparr>resultType := PGSQL_RESULT_BOOL, parsedOk := False\<rparr>)
            (Some (parseSingleValueResult lc errno))")
     (auto simp: pgsql_has_replica_def)

text \<open>
  Claim C8. \<^verbatim>\<open>pgsql_get_received_lsn_from_standby\<close> and \<^verbatim>\<open>pgsql_has_replica\<close> drop the
  boolean of \<^verbatim>\<open>pgsql_execute_with_params\<close> and look at \<^verbatim>\<open>parsedOk\<close> only. So a transport
  failure (no connection, or a response that is not ok) and a query that ran but did
  not bring exactly one row give the same return: false, with the caller's variable
  untouched.
\<close>

theorem transport_failure_not_told_apart:
  assumes transport: "cn = None \<or> \<not> is_response_ok res"
    and executed: "is_response_ok (Some r)" and rows: "length (firstColumn r) \<noteq> 1"
  shows "(\<exists>p. pgsql_get_received_lsn_from_standby lc errno ctx0 pgsql cn res receivedLSN maxLSNSize
              = Returns (False, receivedLSN, p))
       \<and> pgsql_get_received_lsn_from_standby lc errno ctx0 pgsql (Some c) (Some r) receivedLSN
              maxLSNSize
            = Returns (False, receivedLSN, pgsql)
       \<and> (\<exists>p. pgsql_has_replica lc errno ctx0 pgsql cn res hasReplica = (False, hasReplica, p))
       \<and> pgsql_has_replica lc errno ctx0 pgsql (Some c) (Some r) hasReplica
            = (False, hasReplica, pgsql)"
proof (intro conjI)
  let ?s = "ctx0\<lparr>resultType := PGSQL_RESULT_STRING, parsedOk := False\<rparr>"
  let ?b = "ctx0\<lparr>resultType := PGSQL_RESULT_BOOL, parsedOk := False\<rparr>"
  let ?f = "Some (parseSingleValueResult lc errno)"
  from execute_failed[OF transport, of pgsql ?s ?f]
  show "\<exists>p. pgsql_get_received_lsn_from_standby lc errno ctx0 pgsql cn res receivedLSN maxLSNSize
              = Returns (False, receivedLSN, p)"
    by (cases "pgsql_execute_with_params pgsql cn res ?s ?f")
      (simp add: pgsql_get_received_lsn_from_standby_def)
  from execute_failed[OF transport, of pgsql ?b ?f]
  show "\<exists>p. pgsql_has_replica lc errno ctx0 pgsql cn res hasReplica = (False, hasReplica, p)"
    by (cases "pgsql_execute_with_params pgsql cn res ?b ?f")
      (simp add: pgsql_has_replica_def)
  show "pgsql_get_received_lsn_from_standby lc errno ctx0 pgsql (Some c) (Some r) receivedLSN
              maxLSNSize
            = Returns (False, receivedLSN, pgsql)"
    by (simp add: pgsql_get_received_lsn_from_standby_def execute_not_one_row[OF executed rows])
  show "pgsql_has_replica lc errno ctx0 pgsql (Some c) (Some r) hasReplica
            = (False, hasReplica, pgsql)"
    by (simp add: pgsql_has_replica_def execute_not_one_row[OF executed rows])
qed

theorem transport_failure_not_told_apart_witness:
  "pgsql_get_received_lsn_from_standby failing_libc 0 (blank_context PGSQL_RESULT_BOOL)
       disconnected_client None None ''0/0'' 18 = Returns (False, ''0/0'', disconnected_client)
   \<and> pgsql_get_received_lsn_from_standby failing_libc 0 (blank_context PGSQL_RESULT_BOOL)
       monitor_client (Some 1) (Some failure_without_sqlstate) ''0/0'' 18
       = Returns (False, ''0/0'', disconnected_client)
   \<and> pgsql_get_received_lsn_from_standby failing_libc 0 (blank_context PGSQL_RESULT_BOOL)
       monitor_client (Some 1) (Some zero_rows) ''0/0'' 18
       = Returns (False, ''0/0'', monitor_client)
   \<and> pgsql_has_replica failing_libc 0 (blank_context PGSQL_RESULT_BOOL)
       disconnected_client None None True = (False, True, disconnected_client)
   \<and> pgsql_has_replica failing_libc 0 (blank_context PGSQL_RESULT_BOOL)
       monitor_client (Some 1) (Some failure_without_sqlstate) True
       = (False, True, disconnected_client)
   \<and> pgsql_has_replica failing_libc 0 (blank_context PGSQL_RESULT_BOOL)
       monitor_client (Some 1) (Some zero_rows) True = (False, True, monitor_client)"
  using transport_failure_not_told_apart
    [of None None zero_rows failing_libc 0 "blank_context PGSQL_RESULT_BOOL"
        disconnected_client "''0/0''" 18 1 True]
    transport_failure_not_told_apart
    [of "Some 1" "Some failure_without_sqlstate" zero_rows failing_libc 0
        "blank_context PGSQL_RESULT_BOOL" monitor_client "''0/0''" 18 1 True]
  by (simp add: zero_rows_def failure_without_sqlstate_def is_response_ok_def PQresultStatus_def
      pgsql_get_received_lsn_from_standby_def pgsql_has_replica_def
      pgsql_execute_with_params_def pgsql_finish_def monitor_client_def
      disconnected_client_def)

subsection \<open>A failed command without SQLSTATE\<close>

lemma after_failed_command_null:
  "PQresultErrorField_SQLSTATE res = None \<Longrightarrow>
   after_failed_command pgsql res expected = NullPointerDereference"
  by (simp add: after_failed_command_def strcmp_is_0_def)

text \<open>
  Claim C7. In \<^verbatim>\<open>pgsql_create_extension\<close>, \<^verbatim>\<open>pgsql_create_database\<close> and
  \<^verbatim>\<open>pgsql_create_user\<close> the SQLSTATE of a failed command goes to \<^verbatim>\<open>strcmp\<close> unchecked.
  With a connection, names that escape and a query buffer that is whole, a command that
  fails with a result carrying no SQLSTATE makes each of the three read through the
  null pointer; none of them returns false for an unknown error.
\<close>

theorem create_without_sqlstate_dereferences_null:
  assumes failed: "\<forall>command. \<not> is_response_ok (PQexec lp command)
                      \<and> PQresultErrorField_SQLSTATE (PQexec lp command) = None"
    and escaped: "\<forall>s. PQescapeIdentifier lp s \<noteq> None" "\<forall>s. PQescapeLiteral lp s \<noteq> None"
    and unbroken: "\<not> bufferBroken lp"
  shows "pgsql_create_extension bufsize lp pgsql (Some c) name = NullPointerDereference
       \<and> pgsql_create_database bufsize lp pgsql (Some c) db owner = NullPointerDereference
       \<and> pgsql_create_user lp pgsql (Some c) userName password login superuser replication
           = NullPointerDereference"
proof (intro conjI)
  from escaped(1) obtain e0 where "PQescapeIdentifier lp name = Some e0"
    by (meson option.exhaust)
  then show "pgsql_create_extension bufsize lp pgsql (Some c) name = NullPointerDereference"
    using failed
    by (simp add: pgsql_create_extension_def Let_def after_failed_command_null)
  from escaped(1) obtain e1 e2 where
    "PQescapeIdentifier lp db = Some e1" "PQescapeIdentifier lp owner = Some e2"
    by (meson option.exhaust)
  then show "pgsql_create_database bufsize lp pgsql (Some c) db owner = NullPointerDereference"
    using failed
    by (simp add: pgsql_create_database_def Let_def after_failed_command_null)
  from escaped(1) obtain e where e: "PQescapeIdentifier lp userName = Some e"
    by (meson option.exhaust)
  show "pgsql_create_user lp pgsql (Some c) userName password login superuser replication
           = NullPointerDereference"
  proof (cases password)
    case None
    with e failed unbroken show ?thesis
      by (simp add: pgsql_create_user_def Let_def after_failed_command_null)
  next
    case (Some pw)
    from escaped(2) obtain ep where "PQescapeLiteral lp pw = Some ep"
      by (meson option.exhaust)
    with Some e failed unbroken show ?thesis
      by (simp add: pgsql_create_user_def Let_def after_failed_command_null)
  qed
qed

theorem create_without_sqlstate_dereferences_null_witness:
  "pgsql_create_extension 1024 (answering (Some failure_without_sqlstate)) monitor_client (Some 1)
      ''pgautofailover'' = NullPointerDereference
   \<and> pgsql_create_database 1024 (answering None) monitor_client (Some 1) ''postgres'' ''dim''
      = NullPointerDereference
   \<and> pgsql_create_user (answering (Some failure_without_sqlstate)) monitor_client (Some 1)
      ''autoctl_node'' None True False False = NullPointerDereference"
  using create_without_sqlstate_dereferences_null
      [of "answering (Some failure_without_sqlstate)" 1024 monitor_client 1 "''pgautofailover''"
          "''postgres''" "''dim''" "''autoctl_node''" None True False False]
    create_without_sqlstate_dereferences_null
      [of "answering None" 1024 monitor_client 1 "''pgautofailover''"
          "''postgres''" "''dim''" "''autoctl_node''" None True False False]
  by (simp add: answering_def failure_without_sqlstate_def is_response_ok_def PQresultStatus_def
      PQresultErrorField_SQLSTATE_def)

subsection \<open>The retry loop ends\<close>

lemma retry_loop_stopped: "\<not> retry l \<Longrightarrow> retry_loop timeout startTime turns i l = Some l"
  by (subst retry_loop.simps) simp

lemma retry_loop_timed_out:
  "timeout \<le> clock (turns i) - startTime \<Longrightarrow> retry_loop timeout startTime turns i l = Some l"
  by (subst retry_loop.simps) simp

lemma ping_switch_attempts: "attempts (ping_switch t l) = attempts l"
  by (simp add: ping_switch_def split: PGPing.splits)

lemma ping_switch_retry: "retry (ping_switch t l) = (ping t = PQPING_NO_RESPONSE)"
  by (simp add: ping_switch_def split: PGPing.splits)

text \<open>
  If the turn \<open>k\<close> turns after \<open>i\<close> is one on which the loop is left, the loop started at
  turn \<open>i\<close> returns, after at most \<open>k + 1\<close> more pings. Induction on \<open>k\<close>; the locals
  change from turn to turn and are generalised.
\<close>

lemma retry_loop_leaves:
  "leaves_loop timeout startTime (turns (i + k)) \<Longrightarrow>
   \<exists>l'. retry_loop timeout startTime turns i l = Some l' \<and> attempts l' \<le> attempts l + int k + 1"
proof (induction k arbitrary: i l)
  case 0
  show ?case
  proof (cases "\<not> retry l \<or> timeout \<le> clock (turns i) - startTime")
    case True
    then show ?thesis by (auto simp: retry_loop_stopped retry_loop_timed_out)
  next
    case False
    with 0 have stop: "ping (turns i) \<noteq> PQPING_NO_RESPONSE \<or> asked_to_stop (turns i)
        \<or> asked_to_stop_fast (turns i)"
      by (auto simp: leaves_loop_def)
    from False stop show ?thesis
      by (subst retry_loop.simps)
        (auto simp: Let_def retry_loop_stopped ping_switch_retry ping_switch_attempts)
  qed
next
  case (Suc k)
  show ?case
  proof (cases "\<not> retry l \<or> timeout \<le> clock (turns i) - startTime")
    case True
    then show ?thesis by (auto simp: retry_loop_stopped retry_loop_timed_out)
  next
    case False
    define l1 where "l1 =
      (let l1 = l\<lparr>attempts := attempts l + 1\<rparr>;
           l2 = ping_switch (turns i) l1
       in if asked_to_stop (turns i) \<or> asked_to_stop_fast (turns i)
          then l2\<lparr>retry := False\<rparr> else l2)"
    have a: "attempts l1 = attempts l + 1"
      by (simp add: l1_def Let_def ping_switch_attempts)
    from Suc.prems have "leaves_loop timeout startTime (turns (Suc i + k))" by simp
    from Suc.IH[OF this, of l1] obtain l' where
      "retry_loop timeout startTime turns (Suc i) l1 = Some l'"
      "attempts l' \<le> attempts l1 + int k + 1"
      by blast
    with False a show ?thesis
      by (subst retry_loop.simps) (auto simp: l1_def)
  qed
qed

text \<open>
  A turn whose clock reads at least \<open>startTime + timeout\<close> is one on which the loop is
  left. Every turn that goes on sleeps a positive number of seconds first, so on a clock
  that moves such a turn comes.
\<close>

lemma clock_past_timeout_leaves_loop:
  assumes "unat startTime + unat timeout \<le> unat (clock t)"
  shows "leaves_loop timeout startTime t"
proof -
  from assms have le: "startTime \<le> clock t" by (simp add: word_le_nat_alt)
  then have "unat (clock t - startTime) = unat (clock t) - unat startTime"
    by (simp add: unat_sub)
  with assms have "timeout \<le> clock t - startTime" by (simp add: word_le_nat_alt)
  then show ?thesis by (simp add: leaves_loop_def)
qed

text \<open>
  Claim C5. \<^verbatim>\<open>pgsql_retry_open_connection\<close> returns: as soon as some turn \<open>k\<close> finds the
  elapsed time at the timeout, or a ping answered by OK, REJECT or NO_ATTEMPT, or one of
  the two stop flags set, the loop has ended and the function has returned, after at
  most \<open>k + 1\<close> pings. The clock is an input of the model; the turn with the elapsed time
  at the timeout is the one that a moving clock brings.
\<close>

theorem retry_open_connection_terminates:
  assumes "leaves_loop timeout startTime (turns k)"
  shows "\<exists>c p n. pgsql_retry_open_connection timeout startTime turns pgsql = Some (c, p, n)
           \<and> n \<le> int k + 1"
proof -
  from assms have "leaves_loop timeout startTime (turns (0 + k))" by simp
  from retry_loop_leaves[of timeout startTime turns 0 k, OF this] obtain l' where
    "retry_loop timeout startTime turns 0
       \<lparr>opened = None, attempts = 0, retry = True, connectionOk = False\<rparr> = Some l'"
    "attempts l'
       \<le> attempts \<lparr>opened = None, attempts = 0, retry = True, connectionOk = False\<rparr> + int k + 1"
    by blast
  then show ?thesis
    by (auto simp: pgsql_retry_open_connection_def)
qed

theorem retry_open_connection_terminates_witness:
  "leaves_loop 15 1000 (silent_server 3) \<and>
   pgsql_retry_open_connection 15 1000 silent_server disconnected_client
     = Some (None, disconnected_client, 3)"
  using retry_open_connection_terminates[of 15 1000 silent_server 3 disconnected_client]
  by (simp add: pgsql_retry_open_connection_def retry_loop.simps silent_server_def
      leaves_loop_def ping_switch_def monitor_client_def disconnected_client_def
      pgsql_finish_def)

subsection \<open>Escaped values are read back\<close>

lemma escape_loop_from:
  "escape_loop d s =
     d @ concat (map (\<lambda>c. if c = single_quote \<or> c = backslash then [backslash, c] else [c]) s)"
  by (induction s arbitrary: d) auto

lemma read_quoted_value:
  "conninfo_read (Quoted k v) seen
     (concat (map (\<lambda>c. if c = single_quote \<or> c = backslash then [backslash, c] else [c]) s)
      @ single_quote # rest)
   = conninfo_read Blanks (seen @ [(k, v @ s)]) rest"
  by (induction s arbitrary: v) (auto simp: single_quote_def backslash_def)

lemma read_field:
  "conninfo_read (After_equals k) seen (fst (escape_conninfo_value v) @ rest)
   = conninfo_read Blanks (seen @ [(k, v)]) rest"
  using read_quoted_value[of k "[]" seen v rest]
  by (simp add: escape_conninfo_value_def escape_loop_from Let_def isspace_def single_quote_def)

lemma read_last_field:
  "conninfo_read (After_equals k) seen (fst (escape_conninfo_value v)) = Some (seen @ [(k, v)])"
  using read_field[of k seen v "[]"] by simp

lemma field_text:
  "fst (make_conninfo_field_str k v) = '' '' @ k @ ''='' @ fst (escape_conninfo_value v)"
  by (simp add: make_conninfo_field_str_def Let_def split: prod.splits)

text \<open>
  Claim C4. \<^verbatim>\<open>escape_conninfo_value\<close> writes a single quote, then the characters of
  the value with a backslash before each single quote and each backslash and before
  nothing else, then a single quote; and reading the connection string made of the four
  fields host, port, dbname and user, each written by \<^verbatim>\<open>make_conninfo_field_str\<close>, gives
  back the four values. This holds for every value, the printable ASCII ones among them.
\<close>

theorem conninfo_round_trip:
  "fst (escape_conninfo_value s)
     = single_quote
       # concat (map (\<lambda>c. if c = single_quote \<or> c = backslash then [backslash, c] else [c]) s)
       @ [single_quote]
   \<and> snd (escape_conninfo_value s) = int (length (fst (escape_conninfo_value s)))
   \<and> conninfo_parse (conninfo_of h p d u)
     = Some [(''host'', h), (''port'', p), (''dbname'', d), (''user'', u)]"
proof (intro conjI)
  show "fst (escape_conninfo_value s)
     = single_quote
       # concat (map (\<lambda>c. if c = single_quote \<or> c = backslash then [backslash, c] else [c]) s)
       @ [single_quote]"
    by (simp add: escape_conninfo_value_def escape_loop_from Let_def)
  show "snd (escape_conninfo_value s) = int (length (fst (escape_conninfo_value s)))"
    by (simp add: escape_conninfo_value_def Let_def)
  show "conninfo_parse (conninfo_of h p d u)
     = Some [(''host'', h), (''port'', p), (''dbname'', d), (''user'', u)]"
    by (simp add: conninfo_parse_def conninfo_of_def field_text isspace_def read_field
        read_last_field)
qed

theorem conninfo_round_trip_witness:
  "conninfo_parse (conninfo_of ''it's'' ''5432'' [CHR ''a'', CHR 0x5C, CHR ''b''] ''o' brien'')
     = Some [(''host'', ''it's''), (''port'', ''5432''),
             (''dbname'', [CHR ''a'', CHR 0x5C, CHR ''b'']), (''user'', ''o' brien'')]
   \<and> fst (escape_conninfo_value ''it's'')
     = [CHR 0x27, CHR ''i'', CHR ''t'', CHR 0x5C, CHR 0x27, CHR ''s'', CHR 0x27]"
  using conninfo_round_trip
    [of "''it's''" "''it's''" "''5432''" "[CHR ''a'', CHR 0x5C, CHR ''b'']" "''o' brien''"]
  by (simp add: single_quote_def backslash_def)

section \<open>Properties of the monitor\<close>

text \<open>
  The model run on the calls of \<^verbatim>\<open>monitor.out\<close> gives the node table that the script
  dumps after them (lines 130 to 157) and leaves the formation row as printed there.
\<close>

lemma three_nodes_catalog:
  "three_nodes =
     \<lparr>formations = [\<lparr>formation_id = ''default'', kind = Plain, dbname = ''postgres'',
                      opt_secondary = True, number_sync_standbys = 1\<rparr>],
      nodes = [node_row 1 ''node_1'' 9876 Wait_primary Wait_primary Unknown,
               node_row 2 ''node_2'' 9877 Catchingup Wait_standby Unknown,
               node_row 3 ''node_3'' 9879 Wait_standby Init Async],
      nodeid_seq = 3\<rparr>"
  by (simp add: three_nodes_def scenario_A_def initial_catalog_def register_node_def
      node_active_def assign_goal_def in_group_def node_row_def Let_def)

lemma three_nodes_table:
  "nodes three_nodes =
     [node_row 1 ''node_1'' 9876 Wait_primary Wait_primary Unknown,
      node_row 2 ''node_2'' 9877 Catchingup Wait_standby Unknown,
      node_row 3 ''node_3'' 9879 Wait_standby Init Async]"
  by (simp add: three_nodes_catalog)

subsection \<open>Scenario A\<close>




subsection \<open>The primary of a group\<close>

lemma find_in_set: "find P xs = Some x \<Longrightarrow> x \<in> set xs \<and> P x"
  by (auto simp: find_Some_iff)

text \<open>
  Claim C2. When the group asked for has no node in a writable state, which is so for
  a formation or a group that the catalog does not know, \<^verbatim>\<open>get_primary\<close> ends in the
  error whose message is \<^verbatim>\<open>group has no writable node right now\<close>. When the group has
  a writable node, \<^verbatim>\<open>get_primary\<close> returns the id, name, host and port of a writable
  node of the group; that is the group's writable node when there is one only, as the
  invariant of the catalog demands.
\<close>

theorem get_primary_error_or_writable_node:
  "(\<not> (\<exists>n \<in> set (nodes s). in_group (formation_or_default fa) (group_or_default ga) n
            \<and> writable (goalstate n))
      \<longrightarrow> get_primary s fa ga = Inl No_writable_node
          \<and> error_message No_writable_node = ''group has no writable node right now'')
   \<and> ((\<exists>n \<in> set (nodes s). in_group (formation_or_default fa) (group_or_default ga) n
            \<and> writable (goalstate n))
      \<longrightarrow> (\<exists>n \<in> set (nodes s). in_group (formation_or_default fa) (group_or_default ga) n
            \<and> writable (goalstate n)
            \<and> get_primary s fa ga = Inr (nodeid n, nodename n, nodehost n, nodeport n)))
   \<and> (\<forall>n \<in> set (nodes s).
         in_group (formation_or_default fa) (group_or_default ga) n \<and> writable (goalstate n)
         \<and> (\<forall>m \<in> set (nodes s).
               in_group (formation_or_default fa) (group_or_default ga) m
               \<and> writable (goalstate m) \<longrightarrow> m = n)
         \<longrightarrow> get_primary s fa ga = Inr (nodeid n, nodename n, nodehost n, nodeport n))"
proof -
  let ?P = "\<lambda>n. in_group (formation_or_default fa) (group_or_default ga) n
                 \<and> writable (goalstate n)"
  have none: "get_primary s fa ga = Inl No_writable_node"
    if "\<not> (\<exists>n \<in> set (nodes s). ?P n)"
  proof -
    from that have "find ?P (nodes s) = None" unfolding find_None_iff by blast
    then show ?thesis by (simp add: get_primary_def)
  qed
  have some: "\<exists>n \<in> set (nodes s).
      in_group (formation_or_default fa) (group_or_default ga) n \<and> writable (goalstate n)
      \<and> get_primary s fa ga = Inr (nodeid n, nodename n, nodehost n, nodeport n)"
    if "\<exists>n \<in> set (nodes s). ?P n"
  proof -
    from that obtain m where m: "find ?P (nodes s) = Some m"
      by (cases "find ?P (nodes s)") (auto simp: find_None_iff)
    from find_in_set[OF m] m show ?thesis
      by (auto simp: get_primary_def)
  qed
  have only: "get_primary s fa ga = Inr (nodeid n, nodename n, nodehost n, nodeport n)"
    if "n \<in> set (nodes s)" "?P n" "\<forall>m \<in> set (nodes s). ?P m \<longrightarrow> m = n" for n
  proof -
    from that(1,2) have "\<exists>n \<in> set (nodes s). ?P n" by blast
    from some[OF this] obtain m where "m \<in> set (nodes s)" "?P m"
      "get_primary s fa ga = Inr (nodeid m, nodename m, nodehost m, nodeport m)" by blast
    with that(3) show ?thesis by auto
  qed
  show ?thesis
  proof (intro conjI impI ballI)
    assume "\<not> (\<exists>n \<in> set (nodes s). ?P n)"
    then show "get_primary s fa ga = Inl No_writable_node" by (rule none)
  next
    show "error_message No_writable_node = ''group has no writable node right now''" by simp
  next
    assume "\<exists>n \<in> set (nodes s). ?P n"
    then show "\<exists>n \<in> set (nodes s).
      in_group (formation_or_default fa) (group_or_default ga) n \<and> writable (goalstate n)
      \<and> get_primary s fa ga = Inr (nodeid n, nodename n, nodehost n, nodeport n)"
      by (rule some)
  next
    fix n
    assume "n \<in> set (nodes s)"
      and "in_group (formation_or_default fa) (group_or_default ga) n \<and> writable (goalstate n)
         \<and> (\<forall>m \<in> set (nodes s).
               in_group (formation_or_default fa) (group_or_default ga) m
               \<and> writable (goalstate m) \<longrightarrow> m = n)"
    then show "get_primary s fa ga = Inr (nodeid n, nodename n, nodehost n, nodeport n)"
      using only[of n] by blast
  qed
qed

theorem get_primary_error_or_writable_node_witness:
  "get_primary three_nodes (Some ''unknown formation'') None = Inl No_writable_node
   \<and> get_primary three_nodes None (Some (- 10)) = Inl No_writable_node
   \<and> get_primary three_nodes None None = Inr (1, ''node_1'', ''localhost'', 9876)
   \<and> get_primary three_nodes (Some ''default'') (Some 0) = Inr (1, ''node_1'', ''localhost'', 9876)"
  using get_primary_error_or_writable_node[of three_nodes "Some ''unknown formation''" None]
    get_primary_error_or_writable_node[of three_nodes None None]
  by (simp add: get_primary_def three_nodes_table node_row_def in_group_def
      formation_or_default_def group_or_default_def)

subsection \<open>Removing the primary\<close>

text \<open>
  Not every remaining node is assigned \<^verbatim>\<open>report_lsn\<close>: in the group with a lost standby,
  removing the primary returns true and assigns \<^verbatim>\<open>report_lsn\<close> to node 3, which is
  reachable, while node 2, which is lost, keeps the goal \<^verbatim>\<open>secondary\<close>.
\<close>

theorem lost_standby_keeps_its_goal:
  "is_lost 20 100 ((node_row 2 ''node_2'' 9877 Secondary Secondary Sync)\<lparr>health := Bad\<rparr>)
   \<and> fst (remove_node 20 100 standbys_the_group_can_give lost_standby 1 False) = True
   \<and> map (\<lambda>m. (nodeid m, goalstate m))
        (nodes (snd (remove_node 20 100 standbys_the_group_can_give lost_standby 1 False)))
      = [(1, Dropped), (2, Secondary), (3, Report_lsn)]
   \<and> Secondary \<noteq> Report_lsn"
  by (simp add: remove_node_def lost_standby_def initial_catalog_def node_row_def in_group_def
      is_lost_def Let_def)

lemma is_lost_goalstate [simp]: "is_lost t now (m\<lparr>goalstate := g\<rparr>) = is_lost t now m"
  by (simp add: is_lost_def)

text \<open>
  Claim C3, as amended. When \<^verbatim>\<open>remove_node\<close> is called on a node that is the primary of
  its group, it returns true, and every other node of the group that is reachable (not
  lost, rule 5) is in the catalog afterwards with goal state \<^verbatim>\<open>report_lsn\<close> and nothing
  else changed; no reachable remaining node of the group has another goal. This holds
  whatever number the call writes to the formation's row.
\<close>

theorem remove_primary_starts_failover:
  assumes found: "find (\<lambda>n. nodeid n = nid) (nodes s) = Some n"
    and primary: "writable (goalstate n)"
  shows "fst (remove_node timeout now sync_standbys s nid force) = True
       \<and> (\<forall>m \<in> set (nodes s).
            in_group (formationid n) (groupid n) m \<and> nodeid m \<noteq> nid \<and> \<not> is_lost timeout now m
            \<longrightarrow> m\<lparr>goalstate := Report_lsn\<rparr>
                  \<in> set (nodes (snd (remove_node timeout now sync_standbys s nid force))))
       \<and> (\<forall>m \<in> set (nodes (snd (remove_node timeout now sync_standbys s nid force))).
            in_group (formationid n) (groupid n) m \<and> nodeid m \<noteq> nid \<and> \<not> is_lost timeout now m
            \<longrightarrow> goalstate m = Report_lsn)"
  using assms
  by (auto simp: remove_node_def Let_def in_group_def image_iff)

text \<open>
  Scenario B on the catalog of \<^verbatim>\<open>monitor.out\<close>, where both standbys are reachable: the
  call returns true, the formation row has \<^verbatim>\<open>number_sync_standbys\<close> 0 and its other
  columns as before (lines 200 to 206), \<^verbatim>\<open>get_primary\<close> ends in the error, and after the
  forced removal the node table is the one of lines 212 to 236.
\<close>

lemma three_nodes_primary:
  "find (\<lambda>n. nodeid n = 1) (nodes three_nodes)
     = Some (node_row 1 ''node_1'' 9876 Wait_primary Wait_primary Unknown)"
  by (simp add: three_nodes_catalog node_row_def)

lemma scenario_B_removal:
  "remove_node 20 0 standbys_the_group_can_give three_nodes 1 False =
     (True,
      \<lparr>formations = [\<lparr>formation_id = ''default'', kind = Plain, dbname = ''postgres'',
                       opt_secondary = True, number_sync_standbys = 0\<rparr>],
       nodes = [node_row 1 ''node_1'' 9876 Dropped Wait_primary Unknown,
                node_row 2 ''node_2'' 9877 Report_lsn Wait_standby Unknown,
                node_row 3 ''node_3'' 9879 Report_lsn Init Async],
       nodeid_seq = 3\<rparr>)"
  by code_simp

lemma scenario_B_no_primary:
  "get_primary (snd (remove_node 20 0 standbys_the_group_can_give three_nodes 1 False))
     None None = Inl No_writable_node"
  by code_simp

lemma scenario_B_forced_removal:
  "nodes (snd (remove_node 20 0 standbys_the_group_can_give
     (snd (remove_node 20 0 standbys_the_group_can_give three_nodes 1 False)) 1 True)) =
     [node_row 2 ''node_2'' 9877 Report_lsn Wait_standby Unknown,
      node_row 3 ''node_3'' 9879 Report_lsn Init Async]"
  by code_simp

theorem remove_primary_starts_failover_witness:
  "remove_node 20 0 standbys_the_group_can_give three_nodes 1 False =
     (True,
      \<lparr>formations = [\<lparr>formation_id = ''default'', kind = Plain, dbname = ''postgres'',
                       opt_secondary = True, number_sync_standbys = 0\<rparr>],
       nodes = [node_row 1 ''node_1'' 9876 Dropped Wait_primary Unknown,
                node_row 2 ''node_2'' 9877 Report_lsn Wait_standby Unknown,
                node_row 3 ''node_3'' 9879 Report_lsn Init Async],
       nodeid_seq = 3\<rparr>)
   \<and> get_primary (snd (remove_node 20 0 standbys_the_group_can_give three_nodes 1 False))
        None None = Inl No_writable_node
   \<and> nodes (snd (remove_node 20 0 standbys_the_group_can_give
        (snd (remove_node 20 0 standbys_the_group_can_give three_nodes 1 False)) 1 True)) =
        [node_row 2 ''node_2'' 9877 Report_lsn Wait_standby Unknown,
         node_row 3 ''node_3'' 9879 Report_lsn Init Async]"
proof -
  have "writable (goalstate (node_row 1 ''node_1'' 9876 Wait_primary Wait_primary Unknown))"
    by (simp add: node_row_def)
  from remove_primary_starts_failover
    [OF three_nodes_primary this, of 20 0 standbys_the_group_can_give False]
  have "fst (remove_node 20 0 standbys_the_group_can_give three_nodes 1 False) = True"
    by (rule conjunct1)
  then show ?thesis
    by - (intro conjI, rule scenario_B_removal, rule scenario_B_no_primary,
        rule scenario_B_forced_removal)
qed

end
